theory Spec2Isabelle
  imports Main "HOL-Library.Word"
begin

unbundle bit_operations_syntax

section \<open>Machine types\<close>

text \<open>
  The user-space build on an LP64 machine: a pointer is 64 bits wide, \<open>unsigned\<close> is
  32 bits wide. Pointer subtraction gives a 64-bit \<open>ptrdiff_t\<close>; returning it from a
  function declared \<open>unsigned\<close> keeps its low 32 bits (\<open>ucast\<close>). Adding an
  \<open>unsigned\<close> to a pointer zero-extends it first.
\<close>

type_synonym ptr = "64 word"
type_synonym unsigned = "32 word"
type_synonym byte = "8 word"

section \<open>Packet objects (packet.hh, user-space branch)\<close>

text \<open>
  The private members of \<open>class Packet\<close> when neither \<open>__KERNEL__\<close> nor
  \<open>_KERNEL\<close> is defined. A C++ member \<open>_head\<close> is the field \<open>m_head\<close>. The
  annotation members (\<open>_cb\<close>, \<open>_pkt_type\<close>, \<open>_timestamp\<close>) and \<open>_destructor\<close>
  are not touched by any function below and are left out. \<open>_use_count\<close> is a C
  \<open>int\<close>, whose overflow is undefined behaviour, so it is an unbounded integer.
\<close>

record Packet =
  m_use_count :: int
  m_data_packet :: ptr
  m_head :: ptr
  m_data :: ptr
  m_tail :: ptr
  m_end :: ptr
  m_nh_raw :: ptr
  m_h_raw :: ptr

text \<open>A \<open>WritablePacket *\<close> is a \<open>Packet *\<close> with another static type.\<close>

datatype wptr = WritablePacket (raw: ptr)

datatype chatter_arg = Num unsigned | Str string | ElementPtr

text \<open>
  The state outside one object: the heap of Packet objects, the set of addresses of live
  heap blocks, byte memory, the lines handed to \<open>click_chatter\<close>, the addresses of
  the header bytes a validation stage has read, the packets pushed to output ports, and
  the Packet objects on which \<open>delete\<close> has run (the destructor is in packet.cc).
\<close>

record world =
  objs :: "ptr \<Rightarrow> Packet"
  allocated :: "ptr set"
  bytes :: "ptr \<Rightarrow> byte"
  chatter :: "(string \<times> chatter_arg list) list"
  reads :: "ptr list"
  pushed :: "(nat \<times> ptr) list"
  deleted :: "ptr list"

text \<open>
  Functions of this repository that are declared in packet.hh or called by the checkers
  and defined elsewhere (packet.cc, the checksum library): taken as parameters.
\<close>

record externals =
  expensive_uniqueify :: "ptr \<Rightarrow> world \<Rightarrow> wptr \<times> world"
  expensive_push :: "unsigned \<Rightarrow> ptr \<Rightarrow> world \<Rightarrow> wptr \<times> world"
  expensive_put :: "unsigned \<Rightarrow> ptr \<Rightarrow> world \<Rightarrow> wptr \<times> world"
  click_in_cksum :: "(ptr \<Rightarrow> byte) \<Rightarrow> ptr \<Rightarrow> unsigned \<Rightarrow> 16 word"
  click_in_cksum_pseudohdr :: "(ptr \<Rightarrow> byte) \<Rightarrow> unsigned \<Rightarrow> ptr \<Rightarrow> unsigned \<Rightarrow> 16 word"

definition click_chatter :: "string \<Rightarrow> chatter_arg list \<Rightarrow> world \<Rightarrow> world" where
  "click_chatter fmt args w = w\<lparr>chatter := chatter w @ [(fmt, args)]\<rparr>"

text \<open>A member function assigning to fields of \<open>*this\<close>.\<close>

definition update_obj :: "ptr \<Rightarrow> (Packet \<Rightarrow> Packet) \<Rightarrow> world \<Rightarrow> world" where
  "update_obj this f w = w\<lparr>objs := (objs w)(this := f (objs w this))\<rparr>"

subsection \<open>Accessors\<close>

definition Packet_length :: "Packet \<Rightarrow> unsigned" where
  "Packet_length p = ucast (m_tail p - m_data p)"

definition Packet_headroom :: "Packet \<Rightarrow> unsigned" where
  "Packet_headroom p = ucast (m_data p - m_head p)"

definition Packet_tailroom :: "Packet \<Rightarrow> unsigned" where
  "Packet_tailroom p = ucast (m_end p - m_tail p)"

definition Packet_buffer_length :: "Packet \<Rightarrow> unsigned" where
  "Packet_buffer_length p = ucast (m_end p - m_head p)"

definition Packet_shared :: "Packet \<Rightarrow> bool" where
  "Packet_shared p = (m_data_packet p \<noteq> 0 \<or> 1 < m_use_count p)"

definition network_header :: "Packet \<Rightarrow> ptr" where
  "network_header p = m_nh_raw p"

definition ip_header :: "Packet \<Rightarrow> ptr" where
  "ip_header p = m_nh_raw p"

definition transport_header :: "Packet \<Rightarrow> ptr" where
  "transport_header p = m_h_raw p"

text \<open>\<open>int network_header_offset()\<close>: the pointer difference cut to 32 bits.\<close>

definition network_header_offset :: "Packet \<Rightarrow> 32 word" where
  "network_header_offset p = ucast (network_header p - m_data p)"

subsection \<open>uniqueify, push, pull, put, take\<close>

definition Packet_uniqueify :: "externals \<Rightarrow> ptr \<Rightarrow> world \<Rightarrow> wptr \<times> world" where
  "Packet_uniqueify X this w =
     (if \<not> Packet_shared (objs w this) then (WritablePacket this, w)
      else expensive_uniqueify X this w)"

definition Packet_push :: "externals \<Rightarrow> unsigned \<Rightarrow> ptr \<Rightarrow> world \<Rightarrow> wptr \<times> world" where
  "Packet_push X nbytes this w =
     (if nbytes \<le> Packet_headroom (objs w this) \<and> \<not> Packet_shared (objs w this) then
        let q = WritablePacket this
        in (q, update_obj (raw q) (\<lambda>p. p\<lparr>m_data := m_data p - ucast nbytes\<rparr>) w)
      else expensive_push X nbytes this w)"

definition Packet_nonunique_push :: "externals \<Rightarrow> unsigned \<Rightarrow> ptr \<Rightarrow> world \<Rightarrow> ptr \<times> world" where
  "Packet_nonunique_push X nbytes this w =
     (if nbytes \<le> Packet_headroom (objs w this) then
        (this, update_obj this (\<lambda>p. p\<lparr>m_data := m_data p - ucast nbytes\<rparr>) w)
      else (case expensive_push X nbytes this w of (q, w') \<Rightarrow> (raw q, w')))"

definition Packet_pull :: "unsigned \<Rightarrow> ptr \<Rightarrow> world \<Rightarrow> world" where
  "Packet_pull nbytes this w =
     (let len = Packet_length (objs w this);
          w1 = (if len < nbytes
                then click_chatter (''Packet::pull %d > length %d'' @ [CHR 0x0A]) [Num nbytes, Num len] w
                else w);
          nbytes1 = (if len < nbytes then len else nbytes)
      in update_obj this (\<lambda>p. p\<lparr>m_data := m_data p + ucast nbytes1\<rparr>) w1)"

definition Packet_put :: "externals \<Rightarrow> unsigned \<Rightarrow> ptr \<Rightarrow> world \<Rightarrow> wptr \<times> world" where
  "Packet_put X nbytes this w =
     (if nbytes \<le> Packet_tailroom (objs w this) \<and> \<not> Packet_shared (objs w this) then
        let q = WritablePacket this
        in (q, update_obj (raw q) (\<lambda>p. p\<lparr>m_tail := m_tail p + ucast nbytes\<rparr>) w)
      else expensive_put X nbytes this w)"

definition Packet_nonunique_put :: "externals \<Rightarrow> unsigned \<Rightarrow> ptr \<Rightarrow> world \<Rightarrow> ptr \<times> world" where
  "Packet_nonunique_put X nbytes this w =
     (if nbytes \<le> Packet_tailroom (objs w this) then
        (this, update_obj this (\<lambda>p. p\<lparr>m_tail := m_tail p + ucast nbytes\<rparr>) w)
      else (case expensive_put X nbytes this w of (q, w') \<Rightarrow> (raw q, w')))"

definition Packet_take :: "unsigned \<Rightarrow> ptr \<Rightarrow> world \<Rightarrow> world" where
  "Packet_take nbytes this w =
     (let len = Packet_length (objs w this);
          w1 = (if len < nbytes
                then click_chatter (''Packet::take %d > length %d'' @ [CHR 0x0A]) [Num nbytes, Num len] w
                else w);
          nbytes1 = (if len < nbytes then len else nbytes)
      in update_obj this (\<lambda>p. p\<lparr>m_tail := m_tail p - ucast nbytes1\<rparr>) w1)"

text \<open>\<open>kill()\<close>: \<open>if (--_use_count <= 0) delete this;\<close>\<close>

definition Packet_kill :: "ptr \<Rightarrow> world \<Rightarrow> world" where
  "Packet_kill this w =
     (let w1 = update_obj this (\<lambda>p. p\<lparr>m_use_count := m_use_count p - 1\<rparr>) w
      in if m_use_count (objs w1 this) \<le> 0
         then w1\<lparr>allocated := allocated w1 - {this}, deleted := deleted w1 @ [this]\<rparr>
         else w1)"

subsection \<open>The buffer region\<close>

text \<open>The invariant of the data model, and the valid bytes of a packet.\<close>

definition region_inv :: "Packet \<Rightarrow> bool" where
  "region_inv p = (m_head p \<le> m_data p \<and> m_data p \<le> m_tail p \<and> m_tail p \<le> m_end p)"

text \<open>The buffer is no longer than an \<open>unsigned\<close> can say.\<close>

definition fits_unsigned :: "Packet \<Rightarrow> bool" where
  "fits_unsigned p = (unat (m_end p - m_head p) < 2 ^ 32)"

definition payload :: "world \<Rightarrow> Packet \<Rightarrow> byte list" where
  "payload w p = map (\<lambda>i. bytes w (m_data p + of_nat i)) [0..<unat (Packet_length p)]"

section \<open>Header fields\<close>

text \<open>
  A validation stage reads header fields through the pointers the packet caches. Every
  byte it reads is noted in \<open>reads\<close>. The host is little-endian.
\<close>

definition load8 :: "ptr \<Rightarrow> world \<Rightarrow> byte \<times> world" where
  "load8 a w = (bytes w a, w\<lparr>reads := reads w @ [a]\<rparr>)"

definition load16 :: "ptr \<Rightarrow> world \<Rightarrow> 16 word \<times> world" where
  "load16 a w =
     (ucast (bytes w a) OR push_bit 8 (ucast (bytes w (a + 1))),
      w\<lparr>reads := reads w @ [a, a + 1]\<rparr>)"

definition ntohs :: "16 word \<Rightarrow> 16 word" where
  "ntohs x = push_bit 8 x OR drop_bit 8 x"

text \<open>
  Modelled from the spec: the layouts of \<open>click_ip\<close>, \<open>click_udp\<close> and
  \<open>click_tcp\<close> and the protocol numbers (clicknet/ip.h, udp.h and tcp.h are not
  under src/), following the IP, UDP and TCP standards the spec names: header length in
  the low four bits of the first byte of the IP header, total length at offset 2,
  protocol at offset 9; UDP length at offset 4 and checksum at offset 6; TCP data offset
  in the high four bits of the byte at offset 12; TCP is protocol 6 and UDP 17; the
  fixed headers are 20 (TCP) and 8 (UDP) bytes long.
\<close>

definition ip_hl :: "ptr \<Rightarrow> world \<Rightarrow> byte \<times> world" where
  "ip_hl iph w = (case load8 iph w of (b, w') \<Rightarrow> (b AND 0x0F, w'))"

definition ip_len :: "ptr \<Rightarrow> world \<Rightarrow> 16 word \<times> world" where
  "ip_len iph w = load16 (iph + 2) w"

definition ip_p :: "ptr \<Rightarrow> world \<Rightarrow> byte \<times> world" where
  "ip_p iph w = load8 (iph + 9) w"

definition uh_ulen :: "ptr \<Rightarrow> world \<Rightarrow> 16 word \<times> world" where
  "uh_ulen udph w = load16 (udph + 4) w"

definition uh_sum :: "ptr \<Rightarrow> world \<Rightarrow> 16 word \<times> world" where
  "uh_sum udph w = load16 (udph + 6) w"

definition th_off :: "ptr \<Rightarrow> world \<Rightarrow> byte \<times> world" where
  "th_off tcph w = (case load8 (tcph + 12) w of (b, w') \<Rightarrow> (drop_bit 4 b, w'))"

definition IP_PROTO_TCP :: byte where
  "IP_PROTO_TCP = 6"

definition IP_PROTO_UDP :: byte where
  "IP_PROTO_UDP = 17"

definition sizeof_click_tcp :: unsigned where
  "sizeof_click_tcp = 20"

definition sizeof_click_udp :: unsigned where
  "sizeof_click_udp = 8"

text \<open>
  Modelled from the spec: \<open>has_network_header\<close>, \<open>udp_header\<close> and
  \<open>tcp_header\<close>, which the checkers call and this packet.hh does not declare. The
  network header is unset when its pointer is null (\<open>clear_annotations\<close> sets it so);
  the UDP or TCP header is the transport header under another type.
\<close>

definition has_network_header :: "Packet \<Rightarrow> bool" where
  "has_network_header p = (m_nh_raw p \<noteq> 0)"

definition udp_header :: "Packet \<Rightarrow> ptr" where
  "udp_header p = transport_header p"

definition tcp_header :: "Packet \<Rightarrow> ptr" where
  "tcp_header p = transport_header p"

section \<open>The header checkers (checktcpheader.cc, checkudpheader.cc)\<close>

text \<open>
  The members both element classes use, with the reason enumeration as a parameter:
  \<open>_reason_drops\<close> is null or an array of NREASONS 64-bit counters indexed by the
  reason. \<open>_count\<close> and \<open>_drops\<close> are 64-bit counters. \<open>noutputs\<close> is the
  number of output ports the configuration gave the element.
\<close>

record 'r CheckHeader =
  m_verbose :: bool
  m_checksum :: bool
  m_reason_drops :: "('r \<Rightarrow> 64 word) option"
  m_count :: "64 word"
  m_drops :: "64 word"
  noutputs :: int

datatype udp_reason = NOT_UDP | UDP_BAD_LENGTH | UDP_BAD_CHECKSUM

datatype tcp_reason = NOT_TCP | TCP_BAD_LENGTH | TCP_BAD_CHECKSUM

fun CheckUDPHeader_reason_texts :: "udp_reason \<Rightarrow> string" where
  "CheckUDPHeader_reason_texts NOT_UDP = ''not UDP''"
| "CheckUDPHeader_reason_texts UDP_BAD_LENGTH = ''bad packet length''"
| "CheckUDPHeader_reason_texts UDP_BAD_CHECKSUM = ''bad UDP checksum''"

fun CheckTCPHeader_reason_texts :: "tcp_reason \<Rightarrow> string" where
  "CheckTCPHeader_reason_texts NOT_TCP = ''not TCP''"
| "CheckTCPHeader_reason_texts TCP_BAD_LENGTH = ''bad packet length''"
| "CheckTCPHeader_reason_texts TCP_BAD_CHECKSUM = ''bad TCP checksum''"

text \<open>
  The constructors set \<open>_reason_drops(0)\<close>, \<open>_checksum(true)\<close>, \<open>_count = 0\<close>
  and \<open>_drops = 0\<close>; \<open>_verbose\<close> holds whatever it held (\<open>v\<close>) until
  \<open>configure\<close> runs. \<open>configure\<close> is given the three options as parsed.
\<close>

definition CheckUDPHeader_new :: "bool \<Rightarrow> int \<Rightarrow> udp_reason CheckHeader" where
  "CheckUDPHeader_new v n =
     \<lparr>m_verbose = v, m_checksum = True, m_reason_drops = None, m_count = 0, m_drops = 0,
      noutputs = n\<rparr>"

definition CheckTCPHeader_new :: "bool \<Rightarrow> int \<Rightarrow> tcp_reason CheckHeader" where
  "CheckTCPHeader_new v n =
     \<lparr>m_verbose = v, m_checksum = True, m_reason_drops = None, m_count = 0, m_drops = 0,
      noutputs = n\<rparr>"

definition CheckUDPHeader_configure ::
  "bool \<Rightarrow> bool \<Rightarrow> bool \<Rightarrow> udp_reason CheckHeader \<Rightarrow> udp_reason CheckHeader" where
  "CheckUDPHeader_configure verbose details checksum e =
     (let e1 = e\<lparr>m_verbose := verbose, m_checksum := checksum\<rparr>
      in if details then e1\<lparr>m_reason_drops := Some (\<lambda>r. 0)\<rparr> else e1)"

definition CheckTCPHeader_configure ::
  "bool \<Rightarrow> bool \<Rightarrow> bool \<Rightarrow> tcp_reason CheckHeader \<Rightarrow> tcp_reason CheckHeader" where
  "CheckTCPHeader_configure verbose details checksum e =
     (let e1 = e\<lparr>m_verbose := verbose, m_checksum := checksum\<rparr>
      in if details then e1\<lparr>m_reason_drops := Some (\<lambda>r. 0)\<rparr> else e1)"

text \<open>\<open>output(port).push(p)\<close> hands the packet to the next element.\<close>

definition output_push :: "nat \<Rightarrow> ptr \<Rightarrow> world \<Rightarrow> world" where
  "output_push port p w = w\<lparr>pushed := pushed w @ [(port, p)]\<rparr>"

definition CheckUDPHeader_drop ::
  "udp_reason \<Rightarrow> ptr \<Rightarrow> udp_reason CheckHeader \<Rightarrow> world
     \<Rightarrow> ptr \<times> udp_reason CheckHeader \<times> world" where
  "CheckUDPHeader_drop reason p e w =
     (let w1 = (if m_drops e = 0 \<or> m_verbose e
                then click_chatter ''UDP header check failed: %s''
                       [Str (CheckUDPHeader_reason_texts reason)] w
                else w);
          e1 = e\<lparr>m_drops := m_drops e + 1\<rparr>;
          e2 = (case m_reason_drops e1 of
                  None \<Rightarrow> e1
                | Some a \<Rightarrow> e1\<lparr>m_reason_drops := Some (a(reason := a reason + 1))\<rparr>);
          w2 = (if noutputs e2 = 2 then output_push 1 p w1 else Packet_kill p w1)
      in (0, e2, w2))"

definition CheckTCPHeader_drop ::
  "tcp_reason \<Rightarrow> ptr \<Rightarrow> tcp_reason CheckHeader \<Rightarrow> world
     \<Rightarrow> ptr \<times> tcp_reason CheckHeader \<times> world" where
  "CheckTCPHeader_drop reason p e w =
     (let w1 = (if m_drops e = 0 \<or> m_verbose e
                then click_chatter ''%p{element}: TCP header check failed: %s''
                       [ElementPtr, Str (CheckTCPHeader_reason_texts reason)] w
                else w);
          e1 = e\<lparr>m_drops := m_drops e + 1\<rparr>;
          e2 = (case m_reason_drops e1 of
                  None \<Rightarrow> e1
                | Some a \<Rightarrow> e1\<lparr>m_reason_drops := Some (a(reason := a reason + 1))\<rparr>);
          w2 = (if noutputs e2 = 2 then output_push 1 p w1 else Packet_kill p w1)
      in (0, e2, w2))"

text \<open>
  \<open>simple_action\<close>. The condition \<open>!has_network_header() || ip_p != ...\<close> reads
  \<open>ip_p\<close> only when its left side is false. \<open>is_long\<close> is computed and not used.
\<close>

definition CheckUDPHeader_simple_action ::
  "externals \<Rightarrow> ptr \<Rightarrow> udp_reason CheckHeader \<Rightarrow> world
     \<Rightarrow> ptr \<times> udp_reason CheckHeader \<times> world" where
  "CheckUDPHeader_simple_action X p e w =
     (let iph = ip_header (objs w p) in
      if \<not> has_network_header (objs w p) then CheckUDPHeader_drop NOT_UDP p e w
      else case ip_p iph w of (proto, w1) \<Rightarrow>
        if proto \<noteq> IP_PROTO_UDP then CheckUDPHeader_drop NOT_UDP p e w1
        else
          let udph = udp_header (objs w1 p) in
          case ip_hl iph w1 of (hl, w2) \<Rightarrow>
          let iph_len = push_bit 2 (ucast hl :: unsigned) in
          case uh_ulen udph w2 of (ulen, w3) \<Rightarrow>
          let len = (ucast (ntohs ulen) :: unsigned);
              is_long = (Packet_length (objs w3 p)
                           < len + iph_len + network_header_offset (objs w3 p))
          in
          if len < sizeof_click_udp then CheckUDPHeader_drop UDP_BAD_LENGTH p e w3
          else case uh_sum udph w3 of (sum0, w4) \<Rightarrow>
            if sum0 \<noteq> 0 then
              if m_checksum e then
                let csum = (ucast (click_in_cksum X (bytes w4) udph len) :: unsigned) in
                if click_in_cksum_pseudohdr X (bytes w4) csum iph len \<noteq> 0
                then CheckUDPHeader_drop UDP_BAD_CHECKSUM p e w4
                else (p, e\<lparr>m_count := m_count e + 1\<rparr>, w4)
              else (p, e\<lparr>m_count := m_count e + 1\<rparr>, w4)
            else (p, e\<lparr>m_count := m_count e + 1\<rparr>, w4))"

definition CheckTCPHeader_simple_action ::
  "externals \<Rightarrow> ptr \<Rightarrow> tcp_reason CheckHeader \<Rightarrow> world
     \<Rightarrow> ptr \<times> tcp_reason CheckHeader \<times> world" where
  "CheckTCPHeader_simple_action X p e w =
     (let iph = ip_header (objs w p) in
      if \<not> has_network_header (objs w p) then CheckTCPHeader_drop NOT_TCP p e w
      else case ip_p iph w of (proto, w1) \<Rightarrow>
        if proto \<noteq> IP_PROTO_TCP then CheckTCPHeader_drop NOT_TCP p e w1
        else
          let tcph = tcp_header (objs w1 p) in
          case ip_hl iph w1 of (hl, w2) \<Rightarrow>
          let iph_len = push_bit 2 (ucast hl :: unsigned) in
          case ip_len iph w2 of (tot, w3) \<Rightarrow>
          let len = (ucast (ntohs tot) :: unsigned) - iph_len in
          case th_off tcph w3 of (off, w4) \<Rightarrow>
          let tcph_len = push_bit 2 (ucast off :: unsigned);
              is_long = (Packet_length (objs w4 p)
                           < len + iph_len + network_header_offset (objs w4 p))
          in
          if tcph_len < sizeof_click_tcp \<or> len < tcph_len
          then CheckTCPHeader_drop TCP_BAD_LENGTH p e w4
          else if m_checksum e then
            let csum = (ucast (click_in_cksum X (bytes w4) tcph len) :: unsigned) in
            if click_in_cksum_pseudohdr X (bytes w4) csum iph len \<noteq> 0
            then CheckTCPHeader_drop TCP_BAD_CHECKSUM p e w4
            else (p, e\<lparr>m_count := m_count e + 1\<rparr>, w4)
          else (p, e\<lparr>m_count := m_count e + 1\<rparr>, w4))"

text \<open>The four accessors, added as the program adds \<open>unsigned\<close> values.\<close>

definition accessors_add_up :: "Packet \<Rightarrow> bool" where
  "accessors_add_up p =
     (Packet_headroom p + Packet_length p + Packet_tailroom p = Packet_buffer_length p)"

section \<open>Concrete inputs\<close>

text \<open>
  A packet as \<open>Packet::make\<close> lays it out: a 64-byte buffer at 0x2000 with 28 bytes of
  headroom, 28 bytes of data (a 20-byte IP header and 8 more bytes) and 8 bytes of
  tailroom. The second packet has another handle on its buffer. The third holds 40
  bytes of data in a 128-byte buffer. The last has no network header set. In the
  example state every handle addresses the packet given; 0x1000 is the one used.
\<close>

definition ex_packet :: Packet where
  "ex_packet =
     \<lparr>m_use_count = 1, m_data_packet = 0, m_head = 0x2000, m_data = 0x201C,
      m_tail = 0x2038, m_end = 0x2040, m_nh_raw = 0x201C, m_h_raw = 0x2030\<rparr>"

definition ex_shared_packet :: Packet where
  "ex_shared_packet = ex_packet\<lparr>m_use_count := 2\<rparr>"

definition ex_tcp_packet :: Packet where
  "ex_tcp_packet =
     \<lparr>m_use_count = 1, m_data_packet = 0, m_head = 0x2000, m_data = 0x201C,
      m_tail = 0x2044, m_end = 0x2080, m_nh_raw = 0x201C, m_h_raw = 0x2030\<rparr>"

definition ex_no_header_packet :: Packet where
  "ex_no_header_packet = ex_packet\<lparr>m_nh_raw := 0, m_h_raw := 0\<rparr>"

definition ex_world :: "Packet \<Rightarrow> (ptr \<Rightarrow> byte) \<Rightarrow> world" where
  "ex_world pk mem =
     \<lparr>objs = (\<lambda>a. pk), allocated = {0x1000, 0x2000}, bytes = mem, chatter = [],
      reads = [], pushed = [], deleted = []\<rparr>"

text \<open>
  External functions to evaluate with: every expensive path fails to allocate (a null
  handle, nothing changed) and no checksum ever verifies (0xFFFF).
\<close>

definition ex_externals :: externals where
  "ex_externals =
     \<lparr>expensive_uniqueify = (\<lambda>this w. (WritablePacket 0, w)),
      expensive_push = (\<lambda>n this w. (WritablePacket 0, w)),
      expensive_put = (\<lambda>n this w. (WritablePacket 0, w)),
      click_in_cksum = (\<lambda>mem a n. 0xFFFF),
      click_in_cksum_pseudohdr = (\<lambda>mem c a n. 0xFFFF)\<rparr>"

text \<open>
  Header bytes. An IPv4 header of 20 bytes for UDP, with a UDP header whose length field
  says 8 and whose checksum field is 0; the same with a UDP length field of 1000; an
  IPv4 header for TCP whose total length says 1020, with a TCP data offset of 5 words;
  and an IPv4 header for protocol 1.
\<close>

definition ex_udp_bytes :: "ptr \<Rightarrow> byte" where
  "ex_udp_bytes = (\<lambda>a. 0)(0x201C := 0x45, 0x201F := 0x1C, 0x2025 := 17, 0x2035 := 8)"

definition ex_udp_long_bytes :: "ptr \<Rightarrow> byte" where
  "ex_udp_long_bytes =
     (\<lambda>a. 0)(0x201C := 0x45, 0x201F := 0x1C, 0x2025 := 17, 0x2034 := 0x03, 0x2035 := 0xE8)"

definition ex_tcp_long_bytes :: "ptr \<Rightarrow> byte" where
  "ex_tcp_long_bytes =
     (\<lambda>a. 0)(0x201C := 0x45, 0x201E := 0x03, 0x201F := 0xFC, 0x2025 := 6, 0x203C := 0x50)"

definition ex_icmp_bytes :: "ptr \<Rightarrow> byte" where
  "ex_icmp_bytes = (\<lambda>a. 0)(0x201C := 0x45, 0x201F := 0x1C, 0x2025 := 1)"

definition ex_udp_checker :: "udp_reason CheckHeader" where
  "ex_udp_checker = CheckUDPHeader_configure False True True (CheckUDPHeader_new False 1)"

definition ex_tcp_checker :: "tcp_reason CheckHeader" where
  "ex_tcp_checker = CheckTCPHeader_configure False False False (CheckTCPHeader_new False 2)"

section \<open>Word arithmetic between pointers and \<open>unsigned\<close>\<close>

lemma take_bit_add_chain:
  fixes x y :: int
  assumes "m \<le> n"
  shows "take_bit m (take_bit n (x + y)) = take_bit m (take_bit n x + take_bit n y)"
proof -
  have min: "min m n = m" using assms by simp
  have "take_bit m (take_bit n x + take_bit n y)
      = take_bit m (take_bit m (take_bit n x) + take_bit m (take_bit n y))"
    by (simp only: take_bit_add)
  also have "\<dots> = take_bit m (take_bit m x + take_bit m y)"
    by (simp only: take_bit_take_bit min)
  also have "\<dots> = take_bit m (x + y)"
    by (simp only: take_bit_add)
  finally show ?thesis
    by (simp only: take_bit_take_bit min)
qed

lemma ucast_down_add: "(ucast (x + y :: 64 word) :: 32 word) = ucast x + ucast y"
  by transfer (rule take_bit_add_chain, simp)

lemma ucast_down_diff: "(ucast (x - y :: 64 word) :: 32 word) = ucast x - ucast y"
  using ucast_down_add [of "x - y" y] by simp

lemma ucast_up_down: "(ucast (ucast (n::32 word) :: 64 word) :: 32 word) = n"
  by (rule bit_word_eqI) (auto simp add: bit_simps)

lemma unat_ucast_up: "unat (ucast (n::32 word) :: 64 word) = unat n"
  by (simp add: unsigned_ucast_eq take_bit_nat_eq_self unsigned_less[THEN less_trans])

lemma unat_ucast_down_le: "unat (ucast (x::64 word) :: 32 word) \<le> unat x"
  by (simp only: unsigned_ucast_eq take_bit_nat_less_eq_self)

lemma unat_ucast_down_fits:
  "unat (x::64 word) < 2 ^ 32 \<Longrightarrow> unat (ucast x :: 32 word) = unat x"
  by (simp add: unsigned_ucast_eq take_bit_nat_eq_self)

lemma ucast_down_up_fits:
  "unat (x::64 word) < 2 ^ 32 \<Longrightarrow> (ucast (ucast x :: 32 word) :: 64 word) = x"
  by (simp only: word_unat_eq_iff unat_ucast_up unat_ucast_down_fits)

lemma word_sub_bounded:
  fixes h d k :: "64 word"
  assumes "h \<le> d" and "unat k \<le> unat (d - h)"
  shows "h \<le> d - k \<and> d - k \<le> d"
proof -
  have dh: "unat (d - h) = unat d - unat h" using assms(1) by (rule unat_sub)
  have kd: "k \<le> d" using assms(2) dh by (simp add: word_le_nat_alt)
  have dk: "unat (d - k) = unat d - unat k" using kd by (rule unat_sub)
  have hd: "unat h \<le> unat d" using assms(1) by (simp add: word_le_nat_alt)
  show ?thesis using assms(2) dh dk hd by (simp add: word_le_nat_alt)
qed

lemma word_add_bounded:
  fixes t d k :: "64 word"
  assumes "d \<le> t" and "unat k \<le> unat (t - d)"
  shows "d \<le> d + k \<and> d + k \<le> t"
proof -
  have td: "unat (t - d) = unat t - unat d" using assms(1) by (rule unat_sub)
  have dt: "unat d \<le> unat t" using assms(1) by (simp add: word_le_nat_alt)
  have "unat d + unat k \<le> unat t" using assms(2) td dt by simp
  moreover have "unat t < 2 ^ LENGTH(64)" by (rule unsigned_less)
  ultimately have lt: "unat d + unat k < 2 ^ LENGTH(64)" by (rule le_less_trans)
  then have dk: "unat (d + k) = unat d + unat k" by (simp only: unat_add_lem)
  show ?thesis using assms(2) td dt dk by (simp add: word_le_nat_alt)
qed

section \<open>push, uniqueify and the nonunique variants\<close>

text \<open>
  C2. When the headroom is at least \<open>nbytes\<close> and the packet is not shared,
  \<open>push\<close> returns the handle it was called on, as a writable handle, and the only
  change anywhere is that this packet's data pointer has moved back by \<open>nbytes\<close>: no
  block is allocated and no byte of memory is written. In every other case \<open>push\<close> is
  \<open>expensive_push\<close>.
\<close>

theorem Packet_push_in_place_or_expensive:
  "(nbytes \<le> Packet_headroom (objs w this) \<and> \<not> Packet_shared (objs w this) \<longrightarrow>
      Packet_push X nbytes this w =
        (WritablePacket this,
         w\<lparr>objs := (objs w)(this := (objs w this)\<lparr>m_data := m_data (objs w this) - ucast nbytes\<rparr>)\<rparr>) \<and>
      allocated (snd (Packet_push X nbytes this w)) = allocated w \<and>
      bytes (snd (Packet_push X nbytes this w)) = bytes w) \<and>
   (\<not> (nbytes \<le> Packet_headroom (objs w this) \<and> \<not> Packet_shared (objs w this)) \<longrightarrow>
      Packet_push X nbytes this w = expensive_push X nbytes this w)"
  by (simp add: Packet_push_def update_obj_def)

theorem Packet_push_in_place_or_expensive_witness:
  "Packet_headroom (objs (ex_world ex_packet ex_udp_bytes) 0x1000) = 28 \<and>
   \<not> Packet_shared (objs (ex_world ex_packet ex_udp_bytes) 0x1000) \<and>
   Packet_push ex_externals 4 0x1000 (ex_world ex_packet ex_udp_bytes) =
     (WritablePacket 0x1000,
      (ex_world ex_packet ex_udp_bytes)\<lparr>objs := (objs (ex_world ex_packet ex_udp_bytes))(0x1000 := ex_packet\<lparr>m_data := 0x2018\<rparr>)\<rparr>) \<and>
   Packet_shared (objs (ex_world ex_shared_packet ex_udp_bytes) 0x1000) \<and>
   Packet_push ex_externals 4 0x1000 (ex_world ex_shared_packet ex_udp_bytes) =
     expensive_push ex_externals 4 0x1000 (ex_world ex_shared_packet ex_udp_bytes) \<and>
   Packet_push ex_externals 29 0x1000 (ex_world ex_packet ex_udp_bytes) =
     expensive_push ex_externals 29 0x1000 (ex_world ex_packet ex_udp_bytes)"
  using Packet_push_in_place_or_expensive [of 4 "ex_world ex_packet ex_udp_bytes" "0x1000" ex_externals]
    Packet_push_in_place_or_expensive [of 4 "ex_world ex_shared_packet ex_udp_bytes" "0x1000" ex_externals]
    Packet_push_in_place_or_expensive [of 29 "ex_world ex_packet ex_udp_bytes" "0x1000" ex_externals]
  by (simp add: ex_world_def ex_packet_def ex_shared_packet_def Packet_headroom_def Packet_shared_def)

text \<open>
  C6. On a packet that is not shared, \<open>uniqueify\<close> returns the handle it was called
  on, as a writable handle, and changes nothing: the buffer pointer is the same, no block
  is allocated and no byte is written. Only on a shared packet is it
  \<open>expensive_uniqueify\<close>.
\<close>

theorem Packet_uniqueify_unshared_is_self:
  "(\<not> Packet_shared (objs w this) \<longrightarrow>
      Packet_uniqueify X this w = (WritablePacket this, w) \<and>
      m_head (objs (snd (Packet_uniqueify X this w)) this) = m_head (objs w this) \<and>
      allocated (snd (Packet_uniqueify X this w)) = allocated w \<and>
      bytes (snd (Packet_uniqueify X this w)) = bytes w) \<and>
   (Packet_shared (objs w this) \<longrightarrow>
      Packet_uniqueify X this w = expensive_uniqueify X this w)"
  by (simp add: Packet_uniqueify_def)

theorem Packet_uniqueify_unshared_is_self_witness:
  "\<not> Packet_shared (objs (ex_world ex_packet ex_udp_bytes) 0x1000) \<and>
   Packet_uniqueify ex_externals 0x1000 (ex_world ex_packet ex_udp_bytes) =
     (WritablePacket 0x1000, ex_world ex_packet ex_udp_bytes) \<and>
   Packet_shared (objs (ex_world ex_shared_packet ex_udp_bytes) 0x1000) \<and>
   Packet_uniqueify ex_externals 0x1000 (ex_world ex_shared_packet ex_udp_bytes) =
     expensive_uniqueify ex_externals 0x1000 (ex_world ex_shared_packet ex_udp_bytes)"
  using Packet_uniqueify_unshared_is_self [of "ex_world ex_packet ex_udp_bytes" "0x1000" ex_externals]
    Packet_uniqueify_unshared_is_self [of "ex_world ex_shared_packet ex_udp_bytes" "0x1000" ex_externals]
  by (simp add: ex_world_def ex_packet_def ex_shared_packet_def Packet_shared_def)

text \<open>
  C10. When the headroom (tailroom) is at least \<open>nbytes\<close>, \<open>nonunique_push\<close>
  (\<open>nonunique_put\<close>) moves the data (tail) pointer of the packet in place and returns
  the handle it was called on, as a plain \<open>Packet *\<close>, whether the packet is shared or
  not; on a shared packet \<open>push\<close> and \<open>put\<close> take the expensive path instead.
\<close>

theorem Packet_nonunique_grow_ignores_sharing:
  "(nbytes \<le> Packet_headroom (objs w this) \<longrightarrow>
      Packet_nonunique_push X nbytes this w =
        (this,
         w\<lparr>objs := (objs w)(this := (objs w this)\<lparr>m_data := m_data (objs w this) - ucast nbytes\<rparr>)\<rparr>)) \<and>
   (nbytes \<le> Packet_tailroom (objs w this) \<longrightarrow>
      Packet_nonunique_put X nbytes this w =
        (this,
         w\<lparr>objs := (objs w)(this := (objs w this)\<lparr>m_tail := m_tail (objs w this) + ucast nbytes\<rparr>)\<rparr>)) \<and>
   (Packet_shared (objs w this) \<longrightarrow>
      Packet_push X nbytes this w = expensive_push X nbytes this w \<and>
      Packet_put X nbytes this w = expensive_put X nbytes this w)"
  by (simp add: Packet_nonunique_push_def Packet_nonunique_put_def Packet_push_def
      Packet_put_def update_obj_def)

theorem Packet_nonunique_grow_ignores_sharing_witness:
  "Packet_shared (objs (ex_world ex_shared_packet ex_udp_bytes) 0x1000) \<and>
   Packet_headroom (objs (ex_world ex_shared_packet ex_udp_bytes) 0x1000) = 28 \<and>
   Packet_tailroom (objs (ex_world ex_shared_packet ex_udp_bytes) 0x1000) = 8 \<and>
   Packet_nonunique_push ex_externals 4 0x1000 (ex_world ex_shared_packet ex_udp_bytes) =
     (0x1000,
      (ex_world ex_shared_packet ex_udp_bytes)
        \<lparr>objs := (objs (ex_world ex_shared_packet ex_udp_bytes))
                   (0x1000 := ex_shared_packet\<lparr>m_data := 0x2018\<rparr>)\<rparr>) \<and>
   Packet_nonunique_put ex_externals 4 0x1000 (ex_world ex_shared_packet ex_udp_bytes) =
     (0x1000,
      (ex_world ex_shared_packet ex_udp_bytes)
        \<lparr>objs := (objs (ex_world ex_shared_packet ex_udp_bytes))
                   (0x1000 := ex_shared_packet\<lparr>m_tail := 0x203C\<rparr>)\<rparr>) \<and>
   Packet_push ex_externals 4 0x1000 (ex_world ex_shared_packet ex_udp_bytes) =
     (WritablePacket 0, ex_world ex_shared_packet ex_udp_bytes) \<and>
   Packet_put ex_externals 4 0x1000 (ex_world ex_shared_packet ex_udp_bytes) =
     (WritablePacket 0, ex_world ex_shared_packet ex_udp_bytes)"
  using Packet_nonunique_grow_ignores_sharing
          [of 4 "ex_world ex_shared_packet ex_udp_bytes" "0x1000" ex_externals]
  by (simp add: ex_world_def ex_packet_def ex_shared_packet_def ex_externals_def
      Packet_headroom_def Packet_tailroom_def Packet_shared_def)


section \<open>The buffer region under pull, take, push and put\<close>

lemma accessors_add_up_always: "accessors_add_up p"
  by (simp add: accessors_add_up_def Packet_headroom_def Packet_length_def Packet_tailroom_def
      Packet_buffer_length_def ucast_down_diff)

lemma accessors_add_up_nat:
  assumes "region_inv p" and "fits_unsigned p"
  shows "unat (Packet_headroom p) + unat (Packet_length p) + unat (Packet_tailroom p)
           = unat (Packet_buffer_length p)"
proof -
  have hd: "unat (m_head p) \<le> unat (m_data p)" and dt: "unat (m_data p) \<le> unat (m_tail p)"
    and te: "unat (m_tail p) \<le> unat (m_end p)"
    using assms(1) by (simp_all add: region_inv_def word_le_nat_alt)
  have s1: "unat (m_data p - m_head p) = unat (m_data p) - unat (m_head p)"
    and s2: "unat (m_tail p - m_data p) = unat (m_tail p) - unat (m_data p)"
    and s3: "unat (m_end p - m_tail p) = unat (m_end p) - unat (m_tail p)"
    using assms(1) by (simp_all add: region_inv_def unat_sub)
  have he: "m_head p \<le> m_end p" using assms(1) by (auto simp add: region_inv_def)
  have s4: "unat (m_end p - m_head p) = unat (m_end p) - unat (m_head p)"
    using he by (rule unat_sub)
  have b: "unat (m_end p) - unat (m_head p) < 2 ^ 32"
    using assms(2) s4 by (simp add: fits_unsigned_def)
  have f1: "unat (m_data p - m_head p) < 2 ^ 32" using s1 b hd dt te by linarith
  have f2: "unat (m_tail p - m_data p) < 2 ^ 32" using s2 b hd dt te by linarith
  have f3: "unat (m_end p - m_tail p) < 2 ^ 32" using s3 b hd dt te by linarith
  have f4: "unat (m_end p - m_head p) < 2 ^ 32" using s4 b by linarith
  show ?thesis
    unfolding Packet_headroom_def Packet_length_def Packet_tailroom_def Packet_buffer_length_def
    using hd dt te s1 s2 s3 s4
    by (simp only: unat_ucast_down_fits [OF f1] unat_ucast_down_fits [OF f2]
        unat_ucast_down_fits [OF f3] unat_ucast_down_fits [OF f4])
qed

lemma region_inv_push:
  assumes "region_inv p" and "n \<le> Packet_headroom p"
  shows "region_inv (p\<lparr>m_data := m_data p - ucast n\<rparr>)"
proof -
  have "unat n \<le> unat (Packet_headroom p)" using assms(2) by (simp add: word_le_nat_alt)
  also have "\<dots> \<le> unat (m_data p - m_head p)"
    unfolding Packet_headroom_def by (rule unat_ucast_down_le)
  finally have "unat (ucast n :: 64 word) \<le> unat (m_data p - m_head p)"
    by (simp only: unat_ucast_up)
  with assms(1) have "m_head p \<le> m_data p - ucast n \<and> m_data p - ucast n \<le> m_data p"
    by (intro word_sub_bounded) (simp_all add: region_inv_def)
  with assms(1) show ?thesis by (auto simp add: region_inv_def)
qed

lemma region_inv_take:
  assumes "region_inv p" and "n \<le> Packet_length p"
  shows "region_inv (p\<lparr>m_tail := m_tail p - ucast n\<rparr>)"
proof -
  have "unat n \<le> unat (Packet_length p)" using assms(2) by (simp add: word_le_nat_alt)
  also have "\<dots> \<le> unat (m_tail p - m_data p)"
    unfolding Packet_length_def by (rule unat_ucast_down_le)
  finally have "unat (ucast n :: 64 word) \<le> unat (m_tail p - m_data p)"
    by (simp only: unat_ucast_up)
  with assms(1) have "m_data p \<le> m_tail p - ucast n \<and> m_tail p - ucast n \<le> m_tail p"
    by (intro word_sub_bounded) (simp_all add: region_inv_def)
  with assms(1) show ?thesis by (auto simp add: region_inv_def)
qed

lemma region_inv_pull:
  assumes "region_inv p" and "n \<le> Packet_length p"
  shows "region_inv (p\<lparr>m_data := m_data p + ucast n\<rparr>)"
proof -
  have "unat n \<le> unat (Packet_length p)" using assms(2) by (simp add: word_le_nat_alt)
  also have "\<dots> \<le> unat (m_tail p - m_data p)"
    unfolding Packet_length_def by (rule unat_ucast_down_le)
  finally have "unat (ucast n :: 64 word) \<le> unat (m_tail p - m_data p)"
    by (simp only: unat_ucast_up)
  with assms(1) have "m_data p \<le> m_data p + ucast n \<and> m_data p + ucast n \<le> m_tail p"
    by (intro word_add_bounded) (simp_all add: region_inv_def)
  with assms(1) show ?thesis by (auto simp add: region_inv_def)
qed

lemma region_inv_put:
  assumes "region_inv p" and "n \<le> Packet_tailroom p"
  shows "region_inv (p\<lparr>m_tail := m_tail p + ucast n\<rparr>)"
proof -
  have "unat n \<le> unat (Packet_tailroom p)" using assms(2) by (simp add: word_le_nat_alt)
  also have "\<dots> \<le> unat (m_end p - m_tail p)"
    unfolding Packet_tailroom_def by (rule unat_ucast_down_le)
  finally have "unat (ucast n :: 64 word) \<le> unat (m_end p - m_tail p)"
    by (simp only: unat_ucast_up)
  with assms(1) have "m_tail p \<le> m_tail p + ucast n \<and> m_tail p + ucast n \<le> m_end p"
    by (intro word_add_bounded) (simp_all add: region_inv_def)
  with assms(1) show ?thesis by (auto simp add: region_inv_def)
qed

lemma objs_update_obj: "objs (update_obj this f w) this = f (objs w this)"
  by (simp add: update_obj_def)

lemma objs_click_chatter: "objs (click_chatter fmt args w) = objs w"
  by (simp add: click_chatter_def)

lemma objs_pull:
  "objs (Packet_pull n this w) this =
     (objs w this)\<lparr>m_data := m_data (objs w this)
        + ucast (if Packet_length (objs w this) < n then Packet_length (objs w this) else n)\<rparr>"
  by (simp add: Packet_pull_def Let_def objs_update_obj objs_click_chatter)

lemma objs_take:
  "objs (Packet_take n this w) this =
     (objs w this)\<lparr>m_tail := m_tail (objs w this)
        - ucast (if Packet_length (objs w this) < n then Packet_length (objs w this) else n)\<rparr>"
  by (simp add: Packet_take_def Let_def objs_update_obj objs_click_chatter)

lemma clamp_le: "(if len < n then len else n) \<le> (len :: unsigned)"
  by (simp add: not_less)

text \<open>
  C5. For a packet with \<open>head \<le> data \<le> tail \<le> end\<close>, headroom, length and tailroom
  add up to the buffer length: as the program computes the sum, and also without any
  wrap-around when the buffer is shorter than \<open>2 ^ 32\<close> bytes. \<open>pull\<close> and \<open>take\<close>
  with any count, and \<open>push\<close> and \<open>put\<close> on their in-place paths, give a packet with
  the same invariant and the same equation.
\<close>

theorem region_invariant_preserved:
  assumes "region_inv (objs w this)"
  shows "accessors_add_up (objs w this) \<and>
    (fits_unsigned (objs w this) \<longrightarrow>
       unat (Packet_headroom (objs w this)) + unat (Packet_length (objs w this))
         + unat (Packet_tailroom (objs w this)) = unat (Packet_buffer_length (objs w this))) \<and>
    region_inv (objs (Packet_pull n this w) this) \<and>
    accessors_add_up (objs (Packet_pull n this w) this) \<and>
    region_inv (objs (Packet_take n this w) this) \<and>
    accessors_add_up (objs (Packet_take n this w) this) \<and>
    (n \<le> Packet_headroom (objs w this) \<and> \<not> Packet_shared (objs w this) \<longrightarrow>
       region_inv (objs (snd (Packet_push X n this w)) this) \<and>
       accessors_add_up (objs (snd (Packet_push X n this w)) this)) \<and>
    (n \<le> Packet_tailroom (objs w this) \<and> \<not> Packet_shared (objs w this) \<longrightarrow>
       region_inv (objs (snd (Packet_put X n this w)) this) \<and>
       accessors_add_up (objs (snd (Packet_put X n this w)) this))"
proof -
  have pull: "region_inv (objs (Packet_pull n this w) this)"
    unfolding objs_pull by (rule region_inv_pull [OF assms clamp_le])
  have take: "region_inv (objs (Packet_take n this w) this)"
    unfolding objs_take by (rule region_inv_take [OF assms clamp_le])
  have push: "region_inv (objs (snd (Packet_push X n this w)) this)"
    if "n \<le> Packet_headroom (objs w this)" "\<not> Packet_shared (objs w this)"
    using that region_inv_push [OF assms that(1)] by (simp add: Packet_push_def objs_update_obj)
  have put: "region_inv (objs (snd (Packet_put X n this w)) this)"
    if "n \<le> Packet_tailroom (objs w this)" "\<not> Packet_shared (objs w this)"
    using that region_inv_put [OF assms that(1)] by (simp add: Packet_put_def objs_update_obj)
  show ?thesis
    using pull take push put accessors_add_up_nat [OF assms]
    by (simp add: accessors_add_up_always)
qed

theorem region_invariant_preserved_witness:
  "region_inv (objs (ex_world ex_packet ex_udp_bytes) 0x1000) \<and>
   fits_unsigned (objs (ex_world ex_packet ex_udp_bytes) 0x1000) \<and>
   Packet_headroom ex_packet = 28 \<and> Packet_length ex_packet = 28 \<and>
   Packet_tailroom ex_packet = 8 \<and> Packet_buffer_length ex_packet = 64 \<and>
   \<not> Packet_shared ex_packet \<and>
   region_inv (objs (Packet_pull 4 0x1000 (ex_world ex_packet ex_udp_bytes)) 0x1000) \<and>
   region_inv (objs (Packet_take 4 0x1000 (ex_world ex_packet ex_udp_bytes)) 0x1000) \<and>
   region_inv (objs (snd (Packet_push ex_externals 4 0x1000 (ex_world ex_packet ex_udp_bytes))) 0x1000) \<and>
   region_inv (objs (snd (Packet_put ex_externals 4 0x1000 (ex_world ex_packet ex_udp_bytes))) 0x1000)"
proof -
  have inv: "region_inv (objs (ex_world ex_packet ex_udp_bytes) 0x1000)"
    by (simp add: ex_world_def ex_packet_def region_inv_def)
  have vals: "Packet_headroom ex_packet = 28" "Packet_length ex_packet = 28"
    "Packet_tailroom ex_packet = 8" "Packet_buffer_length ex_packet = 64"
    "\<not> Packet_shared ex_packet" "fits_unsigned ex_packet"
    by (simp_all add: ex_packet_def Packet_headroom_def Packet_length_def Packet_tailroom_def
        Packet_buffer_length_def Packet_shared_def fits_unsigned_def)
  have obj: "objs (ex_world ex_packet ex_udp_bytes) 0x1000 = ex_packet"
    by (simp add: ex_world_def)
  show ?thesis
    using region_invariant_preserved [OF inv, of 4 ex_externals] inv vals
    by (simp add: obj)
qed

lemma extent_fits:
  assumes "region_inv p" and "fits_unsigned p"
  shows "unat (m_tail p - m_data p) < 2 ^ 32"
proof -
  have hd: "unat (m_head p) \<le> unat (m_data p)" and dt: "unat (m_data p) \<le> unat (m_tail p)"
    and te: "unat (m_tail p) \<le> unat (m_end p)"
    using assms(1) by (simp_all add: region_inv_def word_le_nat_alt)
  have s2: "unat (m_tail p - m_data p) = unat (m_tail p) - unat (m_data p)"
    using assms(1) by (simp add: region_inv_def unat_sub)
  have he: "m_head p \<le> m_end p" using assms(1) by (auto simp add: region_inv_def)
  have s4: "unat (m_end p - m_head p) = unat (m_end p) - unat (m_head p)"
    using he by (rule unat_sub)
  have b: "unat (m_end p) - unat (m_head p) < 2 ^ 32"
    using assms(2) s4 by (simp add: fits_unsigned_def)
  show ?thesis using s2 b hd dt te by linarith
qed

lemma length_after_pull:
  "Packet_length (p\<lparr>m_data := m_data p + ucast (k :: unsigned)\<rparr>) = Packet_length p - k"
  by (simp add: Packet_length_def ucast_down_diff ucast_down_add ucast_up_down)

lemma length_after_take:
  "Packet_length (p\<lparr>m_tail := m_tail p - ucast (k :: unsigned)\<rparr>) = Packet_length p - k"
  by (simp add: Packet_length_def ucast_down_diff ucast_up_down)

lemma full_extent_back:
  assumes "region_inv p" and "fits_unsigned p"
  shows "(ucast (Packet_length p) :: 64 word) = m_tail p - m_data p"
  unfolding Packet_length_def by (rule ucast_down_up_fits [OF extent_fits [OF assms]])

text \<open>
  C3. When \<open>n\<close> exceeds the length, \<open>pull\<close> and \<open>take\<close> return normally: each
  hands one line to \<open>click_chatter\<close> and removes \<open>length\<close> bytes instead, which
  leaves a packet of length 0, with \<open>data = tail\<close> for every packet that satisfies the
  region invariant in a buffer shorter than \<open>2 ^ 32\<close> bytes. When \<open>n\<close> is at most the
  length, \<open>pull\<close> advances \<open>data\<close> by \<open>n\<close>, \<open>take\<close> retreats \<open>tail\<close> by
  \<open>n\<close>, the length decreases by \<open>n\<close> and nothing is logged.
\<close>

theorem pull_take_clamp:
  "(Packet_length (objs w this) < n \<longrightarrow>
      Packet_pull n this w =
        w\<lparr>objs := (objs w)(this := (objs w this)
               \<lparr>m_data := m_data (objs w this) + ucast (Packet_length (objs w this))\<rparr>),
          chatter := chatter w @ [(''Packet::pull %d > length %d'' @ [CHR 0x0A],
                                   [Num n, Num (Packet_length (objs w this))])]\<rparr> \<and>
      Packet_length (objs (Packet_pull n this w) this) = 0 \<and>
      (region_inv (objs w this) \<and> fits_unsigned (objs w this) \<longrightarrow>
         m_data (objs (Packet_pull n this w) this) = m_tail (objs (Packet_pull n this w) this)) \<and>
      Packet_take n this w =
        w\<lparr>objs := (objs w)(this := (objs w this)
               \<lparr>m_tail := m_tail (objs w this) - ucast (Packet_length (objs w this))\<rparr>),
          chatter := chatter w @ [(''Packet::take %d > length %d'' @ [CHR 0x0A],
                                   [Num n, Num (Packet_length (objs w this))])]\<rparr> \<and>
      Packet_length (objs (Packet_take n this w) this) = 0 \<and>
      (region_inv (objs w this) \<and> fits_unsigned (objs w this) \<longrightarrow>
         m_tail (objs (Packet_take n this w) this) = m_data (objs (Packet_take n this w) this))) \<and>
   (n \<le> Packet_length (objs w this) \<longrightarrow>
      Packet_pull n this w =
        w\<lparr>objs := (objs w)(this := (objs w this)\<lparr>m_data := m_data (objs w this) + ucast n\<rparr>)\<rparr> \<and>
      Packet_length (objs (Packet_pull n this w) this) = Packet_length (objs w this) - n \<and>
      Packet_take n this w =
        w\<lparr>objs := (objs w)(this := (objs w this)\<lparr>m_tail := m_tail (objs w this) - ucast n\<rparr>)\<rparr> \<and>
      Packet_length (objs (Packet_take n this w) this) = Packet_length (objs w this) - n)"
proof -
  have whole: "(ucast (Packet_length (objs w this)) :: 64 word)
                = m_tail (objs w this) - m_data (objs w this)"
    if "region_inv (objs w this)" "fits_unsigned (objs w this)"
    using that by (rule full_extent_back)
  have long: "Packet_pull n this w =
        w\<lparr>objs := (objs w)(this := (objs w this)
               \<lparr>m_data := m_data (objs w this) + ucast (Packet_length (objs w this))\<rparr>),
          chatter := chatter w @ [(''Packet::pull %d > length %d'' @ [CHR 0x0A],
                                   [Num n, Num (Packet_length (objs w this))])]\<rparr>"
    "Packet_take n this w =
        w\<lparr>objs := (objs w)(this := (objs w this)
               \<lparr>m_tail := m_tail (objs w this) - ucast (Packet_length (objs w this))\<rparr>),
          chatter := chatter w @ [(''Packet::take %d > length %d'' @ [CHR 0x0A],
                                   [Num n, Num (Packet_length (objs w this))])]\<rparr>"
    if "Packet_length (objs w this) < n"
    using that by (simp_all add: Packet_pull_def Packet_take_def Let_def update_obj_def click_chatter_def)
  have short: "Packet_pull n this w =
        w\<lparr>objs := (objs w)(this := (objs w this)\<lparr>m_data := m_data (objs w this) + ucast n\<rparr>)\<rparr>"
    "Packet_take n this w =
        w\<lparr>objs := (objs w)(this := (objs w this)\<lparr>m_tail := m_tail (objs w this) - ucast n\<rparr>)\<rparr>"
    if "n \<le> Packet_length (objs w this)"
    using that by (simp_all add: Packet_pull_def Packet_take_def Let_def update_obj_def not_less [symmetric])
  show ?thesis
    using whole
    by (auto simp add: long short length_after_pull length_after_take)
qed

theorem pull_take_clamp_witness:
  "Packet_length (objs (ex_world ex_packet ex_udp_bytes) 0x1000) = 28 \<and>
   region_inv (objs (ex_world ex_packet ex_udp_bytes) 0x1000) \<and>
   fits_unsigned (objs (ex_world ex_packet ex_udp_bytes) 0x1000) \<and>
   m_data (objs (Packet_pull 100 0x1000 (ex_world ex_packet ex_udp_bytes)) 0x1000) = 0x2038 \<and>
   m_tail (objs (Packet_pull 100 0x1000 (ex_world ex_packet ex_udp_bytes)) 0x1000) = 0x2038 \<and>
   chatter (Packet_pull 100 0x1000 (ex_world ex_packet ex_udp_bytes)) =
     [(''Packet::pull %d > length %d'' @ [CHR 0x0A], [Num 100, Num 28])] \<and>
   m_data (objs (Packet_take 100 0x1000 (ex_world ex_packet ex_udp_bytes)) 0x1000) = 0x201C \<and>
   m_tail (objs (Packet_take 100 0x1000 (ex_world ex_packet ex_udp_bytes)) 0x1000) = 0x201C \<and>
   chatter (Packet_take 100 0x1000 (ex_world ex_packet ex_udp_bytes)) =
     [(''Packet::take %d > length %d'' @ [CHR 0x0A], [Num 100, Num 28])] \<and>
   m_data (objs (Packet_pull 4 0x1000 (ex_world ex_packet ex_udp_bytes)) 0x1000) = 0x2020 \<and>
   Packet_length (objs (Packet_pull 4 0x1000 (ex_world ex_packet ex_udp_bytes)) 0x1000) = 24 \<and>
   chatter (Packet_pull 4 0x1000 (ex_world ex_packet ex_udp_bytes)) = [] \<and>
   m_tail (objs (Packet_take 4 0x1000 (ex_world ex_packet ex_udp_bytes)) 0x1000) = 0x2034 \<and>
   Packet_length (objs (Packet_take 4 0x1000 (ex_world ex_packet ex_udp_bytes)) 0x1000) = 24"
  using pull_take_clamp [of "ex_world ex_packet ex_udp_bytes" "0x1000" 100]
    pull_take_clamp [of "ex_world ex_packet ex_udp_bytes" "0x1000" 4]
  by (simp add: Packet_pull_def Packet_take_def Let_def update_obj_def click_chatter_def
      Packet_length_def ex_world_def ex_packet_def region_inv_def fits_unsigned_def)

lemma no_clamp_after_push:
  assumes "region_inv p" and "fits_unsigned p" and "n \<le> Packet_headroom p"
  shows "\<not> Packet_length (p\<lparr>m_data := m_data p - ucast n\<rparr>) < n"
proof -
  have len: "Packet_length (p\<lparr>m_data := m_data p - ucast n\<rparr>) = Packet_length p + n"
    by (simp add: Packet_length_def ucast_down_diff ucast_up_down)
  have hd: "unat (m_head p) \<le> unat (m_data p)" and dt: "unat (m_data p) \<le> unat (m_tail p)"
    and te: "unat (m_tail p) \<le> unat (m_end p)"
    using assms(1) by (simp_all add: region_inv_def word_le_nat_alt)
  have s1: "unat (m_data p - m_head p) = unat (m_data p) - unat (m_head p)"
    and s2: "unat (m_tail p - m_data p) = unat (m_tail p) - unat (m_data p)"
    using assms(1) by (simp_all add: region_inv_def unat_sub)
  have he: "m_head p \<le> m_end p" using assms(1) by (auto simp add: region_inv_def)
  have s4: "unat (m_end p - m_head p) = unat (m_end p) - unat (m_head p)"
    using he by (rule unat_sub)
  have b: "unat (m_end p) - unat (m_head p) < 2 ^ 32"
    using assms(2) s4 by (simp add: fits_unsigned_def)
  have l: "unat (Packet_length p) \<le> unat (m_tail p) - unat (m_data p)"
    unfolding Packet_length_def using unat_ucast_down_le [of "m_tail p - m_data p"] s2 by simp
  have "unat n \<le> unat (Packet_headroom p)" using assms(3) by (simp add: word_le_nat_alt)
  then have r: "unat n \<le> unat (m_data p) - unat (m_head p)"
    unfolding Packet_headroom_def using unat_ucast_down_le [of "m_data p - m_head p"] s1 by simp
  have "unat (Packet_length p) + unat n < 2 ^ 32" using l r b hd dt te by linarith
  then have "unat (Packet_length p + n) = unat (Packet_length p) + unat n"
    by (simp add: unat_add_lem [symmetric])
  then have "n \<le> Packet_length p + n" by (simp add: word_le_nat_alt)
  then show ?thesis by (simp add: len not_less)
qed

lemma no_clamp_after_put:
  assumes "region_inv p" and "fits_unsigned p" and "n \<le> Packet_tailroom p"
  shows "\<not> Packet_length (p\<lparr>m_tail := m_tail p + ucast n\<rparr>) < n"
proof -
  have len: "Packet_length (p\<lparr>m_tail := m_tail p + ucast n\<rparr>) = Packet_length p + n"
    by (simp add: Packet_length_def ucast_down_diff ucast_down_add ucast_up_down)
  have hd: "unat (m_head p) \<le> unat (m_data p)" and dt: "unat (m_data p) \<le> unat (m_tail p)"
    and te: "unat (m_tail p) \<le> unat (m_end p)"
    using assms(1) by (simp_all add: region_inv_def word_le_nat_alt)
  have s2: "unat (m_tail p - m_data p) = unat (m_tail p) - unat (m_data p)"
    and s3: "unat (m_end p - m_tail p) = unat (m_end p) - unat (m_tail p)"
    using assms(1) by (simp_all add: region_inv_def unat_sub)
  have he: "m_head p \<le> m_end p" using assms(1) by (auto simp add: region_inv_def)
  have s4: "unat (m_end p - m_head p) = unat (m_end p) - unat (m_head p)"
    using he by (rule unat_sub)
  have b: "unat (m_end p) - unat (m_head p) < 2 ^ 32"
    using assms(2) s4 by (simp add: fits_unsigned_def)
  have l: "unat (Packet_length p) \<le> unat (m_tail p) - unat (m_data p)"
    unfolding Packet_length_def using unat_ucast_down_le [of "m_tail p - m_data p"] s2 by simp
  have "unat n \<le> unat (Packet_tailroom p)" using assms(3) by (simp add: word_le_nat_alt)
  then have r: "unat n \<le> unat (m_end p) - unat (m_tail p)"
    unfolding Packet_tailroom_def using unat_ucast_down_le [of "m_end p - m_tail p"] s3 by simp
  have "unat (Packet_length p) + unat n < 2 ^ 32" using l r b hd dt te by linarith
  then have "unat (Packet_length p + n) = unat (Packet_length p) + unat n"
    by (simp add: unat_add_lem [symmetric])
  then have "n \<le> Packet_length p + n" by (simp add: word_le_nat_alt)
  then show ?thesis by (simp add: len not_less)
qed

text \<open>
  C4. For an unshared packet that satisfies the region invariant in a buffer shorter than
  \<open>2 ^ 32\<close> bytes: when the headroom is at least \<open>n\<close>, \<open>push n\<close> followed by
  \<open>pull n\<close> gives back the state it started from, so the data pointer and the payload
  bytes are the original ones, and no byte of memory was written in between; when the
  tailroom is at least \<open>n\<close>, the same holds of \<open>put n\<close> followed by \<open>take n\<close> and
  the tail pointer.
\<close>

theorem push_pull_put_take_round_trip:
  assumes "region_inv (objs w this)" and "fits_unsigned (objs w this)"
    and "\<not> Packet_shared (objs w this)"
  shows "(n \<le> Packet_headroom (objs w this) \<longrightarrow>
      fst (Packet_push X n this w) = WritablePacket this \<and>
      bytes (snd (Packet_push X n this w)) = bytes w \<and>
      Packet_pull n this (snd (Packet_push X n this w)) = w \<and>
      m_data (objs (Packet_pull n this (snd (Packet_push X n this w))) this)
        = m_data (objs w this) \<and>
      payload (Packet_pull n this (snd (Packet_push X n this w)))
          (objs (Packet_pull n this (snd (Packet_push X n this w))) this)
        = payload w (objs w this)) \<and>
    (n \<le> Packet_tailroom (objs w this) \<longrightarrow>
      fst (Packet_put X n this w) = WritablePacket this \<and>
      bytes (snd (Packet_put X n this w)) = bytes w \<and>
      Packet_take n this (snd (Packet_put X n this w)) = w \<and>
      m_tail (objs (Packet_take n this (snd (Packet_put X n this w))) this)
        = m_tail (objs w this) \<and>
      payload (Packet_take n this (snd (Packet_put X n this w)))
          (objs (Packet_take n this (snd (Packet_put X n this w))) this)
        = payload w (objs w this))"
proof -
  have push: "Packet_push X n this w =
      (WritablePacket this,
       w\<lparr>objs := (objs w)(this := (objs w this)\<lparr>m_data := m_data (objs w this) - ucast n\<rparr>)\<rparr>)"
    if "n \<le> Packet_headroom (objs w this)"
    using that assms(3) by (simp add: Packet_push_def update_obj_def)
  have put: "Packet_put X n this w =
      (WritablePacket this,
       w\<lparr>objs := (objs w)(this := (objs w this)\<lparr>m_tail := m_tail (objs w this) + ucast n\<rparr>)\<rparr>)"
    if "n \<le> Packet_tailroom (objs w this)"
    using that assms(3) by (simp add: Packet_put_def update_obj_def)
  have pull: "Packet_pull n this (snd (Packet_push X n this w)) = w"
    if "n \<le> Packet_headroom (objs w this)"
    using no_clamp_after_push [OF assms(1,2) that]
    by (simp add: push [OF that] Packet_pull_def Let_def update_obj_def)
  have take: "Packet_take n this (snd (Packet_put X n this w)) = w"
    if "n \<le> Packet_tailroom (objs w this)"
    using no_clamp_after_put [OF assms(1,2) that]
    by (simp add: put [OF that] Packet_take_def Let_def update_obj_def)
  show ?thesis
    by (auto simp add: pull take) (simp_all add: push put)
qed

theorem push_pull_put_take_round_trip_witness:
  "region_inv (objs (ex_world ex_packet ex_udp_bytes) 0x1000) \<and>
   fits_unsigned (objs (ex_world ex_packet ex_udp_bytes) 0x1000) \<and>
   \<not> Packet_shared (objs (ex_world ex_packet ex_udp_bytes) 0x1000) \<and>
   Packet_headroom (objs (ex_world ex_packet ex_udp_bytes) 0x1000) = 28 \<and>
   Packet_tailroom (objs (ex_world ex_packet ex_udp_bytes) 0x1000) = 8 \<and>
   m_data (objs (snd (Packet_push ex_externals 14 0x1000 (ex_world ex_packet ex_udp_bytes))) 0x1000)
     = 0x200E \<and>
   Packet_pull 14 0x1000 (snd (Packet_push ex_externals 14 0x1000 (ex_world ex_packet ex_udp_bytes)))
     = ex_world ex_packet ex_udp_bytes \<and>
   m_tail (objs (snd (Packet_put ex_externals 8 0x1000 (ex_world ex_packet ex_udp_bytes))) 0x1000)
     = 0x2040 \<and>
   Packet_take 8 0x1000 (snd (Packet_put ex_externals 8 0x1000 (ex_world ex_packet ex_udp_bytes)))
     = ex_world ex_packet ex_udp_bytes"
proof -
  have inv: "region_inv (objs (ex_world ex_packet ex_udp_bytes) 0x1000)"
    "fits_unsigned (objs (ex_world ex_packet ex_udp_bytes) 0x1000)"
    "\<not> Packet_shared (objs (ex_world ex_packet ex_udp_bytes) 0x1000)"
    by (simp_all add: ex_world_def ex_packet_def region_inv_def fits_unsigned_def Packet_shared_def)
  have room: "Packet_headroom (objs (ex_world ex_packet ex_udp_bytes) 0x1000) = 28"
    "Packet_tailroom (objs (ex_world ex_packet ex_udp_bytes) 0x1000) = 8"
    by (simp_all add: ex_world_def ex_packet_def Packet_headroom_def Packet_tailroom_def)
  have mid: "m_data (objs (snd (Packet_push ex_externals 14 0x1000 (ex_world ex_packet ex_udp_bytes))) 0x1000)
     = 0x200E"
    "m_tail (objs (snd (Packet_put ex_externals 8 0x1000 (ex_world ex_packet ex_udp_bytes))) 0x1000)
     = 0x2040"
    using inv(3)
    by (simp_all add: Packet_push_def Packet_put_def update_obj_def room)
       (simp_all add: ex_world_def ex_packet_def)
  show ?thesis
    using push_pull_put_take_round_trip [OF inv, of 14 ex_externals]
      push_pull_put_take_round_trip [OF inv, of 8 ex_externals]
    by (simp add: inv room mid)
qed



section \<open>Properties of the header checkers\<close>

lemma reads_Packet_kill: "reads (Packet_kill p w) = reads w"
  by (simp add: Packet_kill_def Let_def update_obj_def)

lemma reads_UDP_drop: "reads (snd (snd (CheckUDPHeader_drop r p e w))) = reads w"
  by (simp add: CheckUDPHeader_drop_def Let_def output_push_def click_chatter_def reads_Packet_kill)

lemma reads_TCP_drop: "reads (snd (snd (CheckTCPHeader_drop r p e w))) = reads w"
  by (simp add: CheckTCPHeader_drop_def Let_def output_push_def click_chatter_def reads_Packet_kill)

text \<open>
  C9. \<open>drop\<close>, of either checker, returns the null pointer, adds one to \<open>_drops\<close>,
  leaves \<open>_count\<close> as it is, adds one to the counter of the given reason and of no
  other when the per-reason array exists and changes nothing there when it does not,
  hands one line to \<open>click_chatter\<close> exactly when \<open>_drops\<close> was zero or
  \<open>_verbose\<close> is set, and then pushes the packet to output 1 when the element has two
  outputs and kills it otherwise. After the constructor and \<open>configure\<close> the
  per-reason array exists exactly when DETAILS was given as true.
\<close>

theorem drop_counts_logs_and_diverts:
  "fst (CheckUDPHeader_drop r p e w) = 0 \<and>
   m_drops (fst (snd (CheckUDPHeader_drop r p e w))) = m_drops e + 1 \<and>
   m_count (fst (snd (CheckUDPHeader_drop r p e w))) = m_count e \<and>
   m_reason_drops (fst (snd (CheckUDPHeader_drop r p e w)))
     = map_option (\<lambda>a. a(r := a r + 1)) (m_reason_drops e) \<and>
   chatter (snd (snd (CheckUDPHeader_drop r p e w)))
     = (if m_drops e = 0 \<or> m_verbose e
        then chatter w @ [(''UDP header check failed: %s'', [Str (CheckUDPHeader_reason_texts r)])]
        else chatter w) \<and>
   (noutputs e = 2 \<longrightarrow>
      snd (snd (CheckUDPHeader_drop r p e w))
        = w\<lparr>chatter := chatter (snd (snd (CheckUDPHeader_drop r p e w))),
            pushed := pushed w @ [(1, p)]\<rparr>) \<and>
   (noutputs e \<noteq> 2 \<longrightarrow>
      snd (snd (CheckUDPHeader_drop r p e w))
        = Packet_kill p (w\<lparr>chatter := chatter (snd (snd (CheckUDPHeader_drop r p e w)))\<rparr>) \<and>
      pushed (snd (snd (CheckUDPHeader_drop r p e w))) = pushed w) \<and>
   fst (CheckTCPHeader_drop r' p e' w) = 0 \<and>
   m_drops (fst (snd (CheckTCPHeader_drop r' p e' w))) = m_drops e' + 1 \<and>
   m_count (fst (snd (CheckTCPHeader_drop r' p e' w))) = m_count e' \<and>
   m_reason_drops (fst (snd (CheckTCPHeader_drop r' p e' w)))
     = map_option (\<lambda>a. a(r' := a r' + 1)) (m_reason_drops e') \<and>
   chatter (snd (snd (CheckTCPHeader_drop r' p e' w)))
     = (if m_drops e' = 0 \<or> m_verbose e'
        then chatter w @ [(''%p{element}: TCP header check failed: %s'',
                           [ElementPtr, Str (CheckTCPHeader_reason_texts r')])]
        else chatter w) \<and>
   (noutputs e' = 2 \<longrightarrow>
      snd (snd (CheckTCPHeader_drop r' p e' w))
        = w\<lparr>chatter := chatter (snd (snd (CheckTCPHeader_drop r' p e' w))),
            pushed := pushed w @ [(1, p)]\<rparr>) \<and>
   (noutputs e' \<noteq> 2 \<longrightarrow>
      snd (snd (CheckTCPHeader_drop r' p e' w))
        = Packet_kill p (w\<lparr>chatter := chatter (snd (snd (CheckTCPHeader_drop r' p e' w)))\<rparr>) \<and>
      pushed (snd (snd (CheckTCPHeader_drop r' p e' w))) = pushed w) \<and>
   (m_reason_drops (CheckUDPHeader_configure verbose details checksum (CheckUDPHeader_new v k)) = None)
     = (\<not> details) \<and>
   (m_reason_drops (CheckTCPHeader_configure verbose details checksum (CheckTCPHeader_new v k)) = None)
     = (\<not> details)"
  by (simp add: CheckUDPHeader_drop_def CheckTCPHeader_drop_def Let_def output_push_def
      click_chatter_def Packet_kill_def update_obj_def CheckUDPHeader_configure_def
      CheckTCPHeader_configure_def CheckUDPHeader_new_def CheckTCPHeader_new_def
      split: option.split)

theorem drop_counts_logs_and_diverts_witness:
  "m_drops ex_udp_checker = 0 \<and> noutputs ex_udp_checker = 1 \<and>
   fst (CheckUDPHeader_drop NOT_UDP 0x1000 ex_udp_checker (ex_world ex_packet ex_icmp_bytes)) = 0 \<and>
   m_drops (fst (snd (CheckUDPHeader_drop NOT_UDP 0x1000 ex_udp_checker
              (ex_world ex_packet ex_icmp_bytes)))) = 1 \<and>
   m_count (fst (snd (CheckUDPHeader_drop NOT_UDP 0x1000 ex_udp_checker
              (ex_world ex_packet ex_icmp_bytes)))) = 0 \<and>
   map_option (\<lambda>a. (a NOT_UDP, a UDP_BAD_LENGTH, a UDP_BAD_CHECKSUM))
     (m_reason_drops (fst (snd (CheckUDPHeader_drop NOT_UDP 0x1000 ex_udp_checker
              (ex_world ex_packet ex_icmp_bytes))))) = Some (1, 0, 0) \<and>
   chatter (snd (snd (CheckUDPHeader_drop NOT_UDP 0x1000 ex_udp_checker
              (ex_world ex_packet ex_icmp_bytes))))
     = [(''UDP header check failed: %s'', [Str ''not UDP''])] \<and>
   pushed (snd (snd (CheckUDPHeader_drop NOT_UDP 0x1000 ex_udp_checker
              (ex_world ex_packet ex_icmp_bytes)))) = [] \<and>
   deleted (snd (snd (CheckUDPHeader_drop NOT_UDP 0x1000 ex_udp_checker
              (ex_world ex_packet ex_icmp_bytes)))) = [0x1000] \<and>
   chatter (snd (snd (CheckUDPHeader_drop UDP_BAD_LENGTH 0x1000
              (ex_udp_checker\<lparr>m_drops := 1\<rparr>) (ex_world ex_packet ex_icmp_bytes)))) = [] \<and>
   noutputs ex_tcp_checker = 2 \<and>
   m_drops (fst (snd (CheckTCPHeader_drop NOT_TCP 0x1000 ex_tcp_checker
              (ex_world ex_packet ex_icmp_bytes)))) = 1 \<and>
   m_reason_drops (fst (snd (CheckTCPHeader_drop NOT_TCP 0x1000 ex_tcp_checker
              (ex_world ex_packet ex_icmp_bytes)))) = None \<and>
   chatter (snd (snd (CheckTCPHeader_drop NOT_TCP 0x1000 ex_tcp_checker
              (ex_world ex_packet ex_icmp_bytes))))
     = [(''%p{element}: TCP header check failed: %s'', [ElementPtr, Str ''not TCP''])] \<and>
   pushed (snd (snd (CheckTCPHeader_drop NOT_TCP 0x1000 ex_tcp_checker
              (ex_world ex_packet ex_icmp_bytes)))) = [(1, 0x1000)] \<and>
   deleted (snd (snd (CheckTCPHeader_drop NOT_TCP 0x1000 ex_tcp_checker
              (ex_world ex_packet ex_icmp_bytes)))) = []"
  using drop_counts_logs_and_diverts
      [where r = NOT_UDP and p = "0x1000" and e = ex_udp_checker
         and w = "ex_world ex_packet ex_icmp_bytes" and r' = NOT_TCP and e' = ex_tcp_checker
         and verbose = False and details = True and checksum = True and v = False and k = 1]
    drop_counts_logs_and_diverts
      [where r = UDP_BAD_LENGTH and p = "0x1000" and e = "ex_udp_checker\<lparr>m_drops := 1\<rparr>"
         and w = "ex_world ex_packet ex_icmp_bytes" and r' = NOT_TCP and e' = ex_tcp_checker
         and verbose = False and details = False and checksum = True and v = False and k = 2]
  by (simp add: CheckUDPHeader_drop_def CheckTCPHeader_drop_def Let_def output_push_def
      click_chatter_def Packet_kill_def update_obj_def ex_udp_checker_def ex_tcp_checker_def
      CheckUDPHeader_configure_def CheckTCPHeader_configure_def CheckUDPHeader_new_def
      CheckTCPHeader_new_def ex_world_def ex_packet_def)

text \<open>
  C8. Without a network header, \<open>simple_action\<close> of either checker is \<open>drop\<close> with
  reason NOT_UDP (NOT_TCP) on the unchanged state, and the bytes read are those read
  before the call: no header byte is read. With a network header whose protocol byte is
  not 17 (6), it is the same \<open>drop\<close> after reading that one byte.
\<close>

theorem absent_header_or_other_protocol_diverts:
  "(\<not> has_network_header (objs w p) \<longrightarrow>
      CheckUDPHeader_simple_action X p eu w = CheckUDPHeader_drop NOT_UDP p eu w \<and>
      reads (snd (snd (CheckUDPHeader_simple_action X p eu w))) = reads w \<and>
      CheckTCPHeader_simple_action X p et w = CheckTCPHeader_drop NOT_TCP p et w \<and>
      reads (snd (snd (CheckTCPHeader_simple_action X p et w))) = reads w) \<and>
   (has_network_header (objs w p) \<and> fst (ip_p (ip_header (objs w p)) w) \<noteq> IP_PROTO_UDP \<longrightarrow>
      CheckUDPHeader_simple_action X p eu w
        = CheckUDPHeader_drop NOT_UDP p eu (w\<lparr>reads := reads w @ [ip_header (objs w p) + 9]\<rparr>) \<and>
      reads (snd (snd (CheckUDPHeader_simple_action X p eu w)))
        = reads w @ [ip_header (objs w p) + 9]) \<and>
   (has_network_header (objs w p) \<and> fst (ip_p (ip_header (objs w p)) w) \<noteq> IP_PROTO_TCP \<longrightarrow>
      CheckTCPHeader_simple_action X p et w
        = CheckTCPHeader_drop NOT_TCP p et (w\<lparr>reads := reads w @ [ip_header (objs w p) + 9]\<rparr>) \<and>
      reads (snd (snd (CheckTCPHeader_simple_action X p et w)))
        = reads w @ [ip_header (objs w p) + 9])"
  by (simp add: CheckUDPHeader_simple_action_def CheckTCPHeader_simple_action_def Let_def
      ip_p_def load8_def reads_UDP_drop reads_TCP_drop)

theorem absent_header_or_other_protocol_diverts_witness:
  "\<not> has_network_header (objs (ex_world ex_no_header_packet ex_icmp_bytes) 0x1000) \<and>
   CheckUDPHeader_simple_action ex_externals 0x1000 ex_udp_checker
       (ex_world ex_no_header_packet ex_icmp_bytes)
     = CheckUDPHeader_drop NOT_UDP 0x1000 ex_udp_checker (ex_world ex_no_header_packet ex_icmp_bytes) \<and>
   reads (snd (snd (CheckUDPHeader_simple_action ex_externals 0x1000 ex_udp_checker
       (ex_world ex_no_header_packet ex_icmp_bytes)))) = [] \<and>
   chatter (snd (snd (CheckUDPHeader_simple_action ex_externals 0x1000 ex_udp_checker
       (ex_world ex_no_header_packet ex_icmp_bytes))))
     = [(''UDP header check failed: %s'', [Str ''not UDP''])] \<and>
   reads (snd (snd (CheckTCPHeader_simple_action ex_externals 0x1000 ex_tcp_checker
       (ex_world ex_no_header_packet ex_icmp_bytes)))) = [] \<and>
   pushed (snd (snd (CheckTCPHeader_simple_action ex_externals 0x1000 ex_tcp_checker
       (ex_world ex_no_header_packet ex_icmp_bytes)))) = [(1, 0x1000)] \<and>
   has_network_header (objs (ex_world ex_packet ex_icmp_bytes) 0x1000) \<and>
   fst (ip_p (ip_header (objs (ex_world ex_packet ex_icmp_bytes) 0x1000))
          (ex_world ex_packet ex_icmp_bytes)) = 1 \<and>
   fst (CheckUDPHeader_simple_action ex_externals 0x1000 ex_udp_checker
       (ex_world ex_packet ex_icmp_bytes)) = 0 \<and>
   reads (snd (snd (CheckUDPHeader_simple_action ex_externals 0x1000 ex_udp_checker
       (ex_world ex_packet ex_icmp_bytes)))) = [0x2025] \<and>
   m_drops (fst (snd (CheckUDPHeader_simple_action ex_externals 0x1000 ex_udp_checker
       (ex_world ex_packet ex_icmp_bytes)))) = 1 \<and>
   fst (CheckTCPHeader_simple_action ex_externals 0x1000 ex_tcp_checker
       (ex_world ex_packet ex_icmp_bytes)) = 0 \<and>
   reads (snd (snd (CheckTCPHeader_simple_action ex_externals 0x1000 ex_tcp_checker
       (ex_world ex_packet ex_icmp_bytes)))) = [0x2025] \<and>
   chatter (snd (snd (CheckTCPHeader_simple_action ex_externals 0x1000 ex_tcp_checker
       (ex_world ex_packet ex_icmp_bytes))))
     = [(''%p{element}: TCP header check failed: %s'', [ElementPtr, Str ''not TCP''])]"
  using absent_header_or_other_protocol_diverts
      [where w = "ex_world ex_no_header_packet ex_icmp_bytes" and p = "0x1000"
         and X = ex_externals and eu = ex_udp_checker and et = ex_tcp_checker]
    absent_header_or_other_protocol_diverts
      [where w = "ex_world ex_packet ex_icmp_bytes" and p = "0x1000"
         and X = ex_externals and eu = ex_udp_checker and et = ex_tcp_checker]
  by (simp add: has_network_header_def ip_header_def ip_p_def load8_def IP_PROTO_UDP_def
      IP_PROTO_TCP_def CheckUDPHeader_drop_def CheckTCPHeader_drop_def Let_def output_push_def
      click_chatter_def Packet_kill_def update_obj_def ex_udp_checker_def ex_tcp_checker_def
      CheckUDPHeader_configure_def CheckTCPHeader_configure_def CheckUDPHeader_new_def
      CheckTCPHeader_new_def ex_world_def ex_packet_def ex_no_header_packet_def ex_icmp_bytes_def)

text \<open>
  C7. A UDP packet with a network header, protocol 17, a length field of at least 8 and a
  checksum field of 0 is returned by \<open>simple_action\<close> with \<open>_count\<close> increased by
  one and nothing else changed but the record of header bytes read, whatever
  \<open>_checksum\<close> holds and whatever the checksum functions would compute.
\<close>

theorem UDP_zero_checksum_skips_verification:
  assumes "has_network_header (objs w p)"
    and "fst (ip_p (ip_header (objs w p)) w) = IP_PROTO_UDP"
    and "\<not> (ucast (ntohs (fst (uh_ulen (udp_header (objs w p)) w))) :: unsigned) < sizeof_click_udp"
    and "fst (uh_sum (udp_header (objs w p)) w) = 0"
  shows "CheckUDPHeader_simple_action X p e w =
      (p, e\<lparr>m_count := m_count e + 1\<rparr>,
       w\<lparr>reads := reads w @ [ip_header (objs w p) + 9, ip_header (objs w p),
            udp_header (objs w p) + 4, udp_header (objs w p) + 4 + 1,
            udp_header (objs w p) + 6, udp_header (objs w p) + 6 + 1]\<rparr>)"
  using assms
  by (simp add: CheckUDPHeader_simple_action_def Let_def ip_p_def ip_hl_def uh_ulen_def
      uh_sum_def load8_def load16_def)

theorem UDP_zero_checksum_skips_verification_witness:
  "has_network_header (objs (ex_world ex_packet ex_udp_bytes) 0x1000) \<and>
   fst (ip_p (ip_header (objs (ex_world ex_packet ex_udp_bytes) 0x1000))
          (ex_world ex_packet ex_udp_bytes)) = IP_PROTO_UDP \<and>
   (ucast (ntohs (fst (uh_ulen (udp_header (objs (ex_world ex_packet ex_udp_bytes) 0x1000))
          (ex_world ex_packet ex_udp_bytes)))) :: unsigned) = 8 \<and>
   fst (uh_sum (udp_header (objs (ex_world ex_packet ex_udp_bytes) 0x1000))
          (ex_world ex_packet ex_udp_bytes)) = 0 \<and>
   m_checksum ex_udp_checker \<and>
   click_in_cksum_pseudohdr ex_externals ex_udp_bytes 0xFFFF 0x201C 8 = 0xFFFF \<and>
   CheckUDPHeader_simple_action ex_externals 0x1000 ex_udp_checker (ex_world ex_packet ex_udp_bytes)
     = (0x1000, ex_udp_checker\<lparr>m_count := 1\<rparr>,
        (ex_world ex_packet ex_udp_bytes)
          \<lparr>reads := [0x2025, 0x201C, 0x2034, 0x2035, 0x2036, 0x2037]\<rparr>) \<and>
   CheckUDPHeader_simple_action ex_externals 0x1000 (ex_udp_checker\<lparr>m_checksum := False\<rparr>)
       (ex_world ex_packet ex_udp_bytes)
     = (0x1000, ex_udp_checker\<lparr>m_checksum := False, m_count := 1\<rparr>,
        (ex_world ex_packet ex_udp_bytes)
          \<lparr>reads := [0x2025, 0x201C, 0x2034, 0x2035, 0x2036, 0x2037]\<rparr>)"
proof -
  have h: "has_network_header (objs (ex_world ex_packet ex_udp_bytes) 0x1000)"
    "fst (ip_p (ip_header (objs (ex_world ex_packet ex_udp_bytes) 0x1000))
          (ex_world ex_packet ex_udp_bytes)) = IP_PROTO_UDP"
    "(ucast (ntohs (fst (uh_ulen (udp_header (objs (ex_world ex_packet ex_udp_bytes) 0x1000))
          (ex_world ex_packet ex_udp_bytes)))) :: unsigned) = 8"
    "fst (uh_sum (udp_header (objs (ex_world ex_packet ex_udp_bytes) 0x1000))
          (ex_world ex_packet ex_udp_bytes)) = 0"
    by (simp_all add: has_network_header_def ip_header_def udp_header_def transport_header_def
        ip_p_def uh_ulen_def uh_sum_def load8_def load16_def ntohs_def IP_PROTO_UDP_def
        ex_world_def ex_packet_def ex_udp_bytes_def)
  have len: "\<not> (ucast (ntohs (fst (uh_ulen (udp_header (objs (ex_world ex_packet ex_udp_bytes) 0x1000))
          (ex_world ex_packet ex_udp_bytes)))) :: unsigned) < sizeof_click_udp"
    by (simp add: h(3) sizeof_click_udp_def)
  have cfg: "m_checksum ex_udp_checker" "m_count ex_udp_checker = 0"
    by (simp_all add: ex_udp_checker_def CheckUDPHeader_configure_def CheckUDPHeader_new_def)
  have ptrs: "ip_header (objs (ex_world ex_packet ex_udp_bytes) 0x1000) = 0x201C"
    "udp_header (objs (ex_world ex_packet ex_udp_bytes) 0x1000) = 0x2030"
    "reads (ex_world ex_packet ex_udp_bytes) = []"
    by (simp_all add: ip_header_def udp_header_def transport_header_def ex_world_def ex_packet_def)
  show ?thesis
    using UDP_zero_checksum_skips_verification [OF h(1) h(2) len h(4), of ex_externals ex_udp_checker]
      UDP_zero_checksum_skips_verification [OF h(1) h(2) len h(4), of ex_externals
        "ex_udp_checker\<lparr>m_checksum := False\<rparr>"] h cfg
    by (simp add: ptrs ex_externals_def)
qed

lemma UDP_short_length_dropped:
  assumes "has_network_header (objs w p)"
    and "fst (ip_p (ip_header (objs w p)) w) = IP_PROTO_UDP"
    and "(ucast (ntohs (fst (uh_ulen (udp_header (objs w p)) w))) :: unsigned) < sizeof_click_udp"
  shows "CheckUDPHeader_simple_action X p e w =
      CheckUDPHeader_drop UDP_BAD_LENGTH p e
        (w\<lparr>reads := reads w @ [ip_header (objs w p) + 9, ip_header (objs w p),
            udp_header (objs w p) + 4, udp_header (objs w p) + 4 + 1]\<rparr>)"
  using assms
  by (simp add: CheckUDPHeader_simple_action_def Let_def ip_p_def ip_hl_def uh_ulen_def
      load8_def load16_def)

lemma TCP_short_length_dropped:
  assumes "has_network_header (objs w p)"
    and "fst (ip_p (ip_header (objs w p)) w) = IP_PROTO_TCP"
    and "(ucast (ntohs (fst (ip_len (ip_header (objs w p)) w))) :: unsigned)
            - push_bit 2 (ucast (fst (ip_hl (ip_header (objs w p)) w)))
          < sizeof_click_tcp"
  shows "CheckTCPHeader_simple_action X p e w =
      CheckTCPHeader_drop TCP_BAD_LENGTH p e
        (w\<lparr>reads := reads w @ [ip_header (objs w p) + 9, ip_header (objs w p),
            ip_header (objs w p) + 2, ip_header (objs w p) + 2 + 1,
            tcp_header (objs w p) + 12]\<rparr>)"
  using assms
  by (auto simp add: CheckTCPHeader_simple_action_def Let_def ip_p_def ip_hl_def ip_len_def
      th_off_def load8_def load16_def not_less)

text \<open>
  C1. A length below the fixed header size is diverted with the bad-length reason (the
  two lemmas above), but a length beyond the captured bytes is not: \<open>is_long\<close> is
  computed and never tested. A UDP packet of 28 captured bytes whose length field says
  1000, and a TCP packet of 40 captured bytes whose IP total length says 1020, are both
  returned as accepted with \<open>_count\<close> increased by one.
\<close>

theorem overlong_claimed_length_is_accepted:
  "Packet_length (objs (ex_world ex_packet ex_udp_long_bytes) 0x1000) = 28 \<and>
   Packet_length ex_packet < 1000 + 20 + network_header_offset ex_packet \<and>
   Packet_length ex_tcp_packet < 1000 + 20 + network_header_offset ex_tcp_packet \<and>
   (ucast (ntohs (fst (uh_ulen 0x2030 (ex_world ex_packet ex_udp_long_bytes)))) :: unsigned) = 1000 \<and>
   CheckUDPHeader_simple_action ex_externals 0x1000 ex_udp_checker
       (ex_world ex_packet ex_udp_long_bytes)
     = (0x1000, ex_udp_checker\<lparr>m_count := 1\<rparr>,
        (ex_world ex_packet ex_udp_long_bytes)
          \<lparr>reads := [0x2025, 0x201C, 0x2034, 0x2035, 0x2036, 0x2037]\<rparr>) \<and>
   Packet_length (objs (ex_world ex_tcp_packet ex_tcp_long_bytes) 0x1000) = 40 \<and>
   (ucast (ntohs (fst (ip_len 0x201C (ex_world ex_tcp_packet ex_tcp_long_bytes)))) :: unsigned) = 1020 \<and>
   CheckTCPHeader_simple_action ex_externals 0x1000 ex_tcp_checker
       (ex_world ex_tcp_packet ex_tcp_long_bytes)
     = (0x1000, ex_tcp_checker\<lparr>m_count := 1\<rparr>,
        (ex_world ex_tcp_packet ex_tcp_long_bytes)
          \<lparr>reads := [0x2025, 0x201C, 0x201E, 0x201F, 0x203C]\<rparr>)"
  by (simp add: CheckUDPHeader_simple_action_def CheckTCPHeader_simple_action_def Let_def
      has_network_header_def ip_header_def udp_header_def tcp_header_def transport_header_def
      ip_p_def ip_hl_def ip_len_def uh_ulen_def uh_sum_def th_off_def load8_def load16_def
      ntohs_def IP_PROTO_UDP_def IP_PROTO_TCP_def sizeof_click_udp_def sizeof_click_tcp_def
      Packet_length_def network_header_offset_def network_header_def ex_world_def ex_packet_def
      ex_tcp_packet_def ex_udp_long_bytes_def
      ex_tcp_long_bytes_def ex_udp_checker_def ex_tcp_checker_def CheckUDPHeader_configure_def
      CheckTCPHeader_configure_def CheckUDPHeader_new_def CheckTCPHeader_new_def)


end
